theory Spec2Isabelle
  imports Main "HOL-Library.Sublist"
begin

section \<open>The service module \<open>services/geminiService.ts\<close>\<close>

text \<open>
  The module is a thin layer over a remote generative endpoint. Every exported function
  awaits one call of the client (\<open>ai.models.generateContent\<close> or \<open>chat.sendMessage\<close>) and
  post-processes the response. The embedding makes the effects explicit:
  \<^item> text is a \<open>string\<close>; where the client library leaves a field optional, the field is
    an \<open>option\<close>, with \<open>None\<close> for the absent value;
  \<^item> an exception (a rejected promise of an \<open>async\<close> function) is the left summand of
    \<open>exn + 'a\<close>;
  \<^item> the remote endpoint is a parameter of each operation: a function from the request
    to a failure or a response, so that every theorem holds for every behaviour of the
    endpoint;
  \<^item> the observable effects are collected in a \<open>world\<close>: the requests sent, in order, and
    the lines written with \<open>console.error\<close>.
\<close>

subsection \<open>Exceptions\<close>

datatype exn =
    TypeError
  | SyntaxError
  | TransportError string

subsection \<open>Text normalisation of the decoder\<close>

text \<open>
  \<open>jsonString.replace(/^```json\n/, '')\<close>: the pattern has no flags, so \<open>^\<close> is the start of
  the input and at most one occurrence, the one at position 0, is replaced.
\<close>

definition leading_marker :: string where
  "leading_marker = ''```json\<newline>''"

definition replace_leading :: "string \<Rightarrow> string \<Rightarrow> string" where
  "replace_leading pat s = (if prefix pat s then drop (length pat) s else s)"

text \<open>
  \<open>.replace(/\n```$/, '')\<close>: without the \<open>m\<close> flag \<open>$\<close> is the end of the input, so the only
  possible match is the last four characters.
\<close>

definition trailing_marker :: string where
  "trailing_marker = ''\<newline>```''"

definition replace_trailing :: "string \<Rightarrow> string \<Rightarrow> string" where
  "replace_trailing pat s = (if suffix pat s then take (length s - length pat) s else s)"

definition cleanedString :: "string \<Rightarrow> string" where
  "cleanedString jsonString =
     replace_trailing trailing_marker (replace_leading leading_marker jsonString)"

subsection \<open>The grammar accepted by \<open>JSON.parse\<close>\<close>

text \<open>
  \<open>JSON.parse\<close> is a built-in of the language, not code of the module. Its grammar
  (ECMA-404, as ECMA-262 restricts it for \<open>JSON.parse\<close>) is modelled by a recogniser that
  reads the text once, left to right, with a stack of the open arrays and objects.
  The value that the built-in constructs from an accepted text is left to a parameter
  of the decoder (see \<open>JSON_parse\<close>).
\<close>

datatype frame = InArray | InObject

datatype role = Key | Val

datatype str_state = SChar | SEscape | SHex4 | SHex3 | SHex2 | SHex1

datatype num_state =
    NMinus | NZero | NInt | NDot | NFrac | NExp | NExpSign | NExpDigits

datatype mode =
    Value
  | ValueOrClose
  | KeyOrClose
  | NextKey
  | Colon
  | Str role str_state
  | Num num_state
  | Lit string
  | After

datatype pstate = Fail | Run mode "frame list"

definition is_ws :: "char \<Rightarrow> bool" where
  "is_ws c = (c = CHR 0x09 \<or> c = CHR 0x0A \<or> c = CHR 0x0D \<or> c = CHR '' '')"

definition is_digit :: "char \<Rightarrow> bool" where
  "is_digit c = (c \<in> set ''0123456789'')"

definition is_digit19 :: "char \<Rightarrow> bool" where
  "is_digit19 c = (c \<in> set ''123456789'')"

definition is_hex :: "char \<Rightarrow> bool" where
  "is_hex c = (c \<in> set ''0123456789abcdefABCDEF'')"

definition is_control :: "char \<Rightarrow> bool" where
  "is_control c = ((of_char c :: nat) < 0x20)"

text \<open>The first character of a value.\<close>

definition begin_value :: "char \<Rightarrow> frame list \<Rightarrow> pstate" where
  "begin_value c st =
     (if c = CHR ''{'' then Run KeyOrClose (InObject # st)
      else if c = CHR ''['' then Run ValueOrClose (InArray # st)
      else if c = CHR 0x22 then Run (Str Val SChar) st
      else if c = CHR ''-'' then Run (Num NMinus) st
      else if c = CHR ''0'' then Run (Num NZero) st
      else if is_digit19 c then Run (Num NInt) st
      else if c = CHR ''t'' then Run (Lit ''rue'') st
      else if c = CHR ''f'' then Run (Lit ''alse'') st
      else if c = CHR ''n'' then Run (Lit ''ull'') st
      else Fail)"

text \<open>A character that follows a complete value.\<close>

definition after_value :: "char \<Rightarrow> frame list \<Rightarrow> pstate" where
  "after_value c st =
     (if is_ws c then Run After st
      else if c = CHR '','' then
        (case st of
           [] \<Rightarrow> Fail
         | InArray # _ \<Rightarrow> Run Value st
         | InObject # _ \<Rightarrow> Run NextKey st)
      else if c = CHR '']'' then
        (case st of InArray # st' \<Rightarrow> Run After st' | _ \<Rightarrow> Fail)
      else if c = CHR ''}'' then
        (case st of InObject # st' \<Rightarrow> Run After st' | _ \<Rightarrow> Fail)
      else Fail)"

fun str_step :: "role \<Rightarrow> str_state \<Rightarrow> char \<Rightarrow> frame list \<Rightarrow> pstate" where
  "str_step r SChar c st =
     (if c = CHR 0x22 then (case r of Key \<Rightarrow> Run Colon st | Val \<Rightarrow> Run After st)
      else if c = CHR 0x5C then Run (Str r SEscape) st
      else if is_control c then Fail
      else Run (Str r SChar) st)"
| "str_step r SEscape c st =
     (if c \<in> set ''\"/bfnrt'' \<or> c = CHR 0x5C then Run (Str r SChar) st
      else if c = CHR ''u'' then Run (Str r SHex4) st
      else Fail)"
| "str_step r SHex4 c st = (if is_hex c then Run (Str r SHex3) st else Fail)"
| "str_step r SHex3 c st = (if is_hex c then Run (Str r SHex2) st else Fail)"
| "str_step r SHex2 c st = (if is_hex c then Run (Str r SHex1) st else Fail)"
| "str_step r SHex1 c st = (if is_hex c then Run (Str r SChar) st else Fail)"

fun num_step :: "num_state \<Rightarrow> char \<Rightarrow> frame list \<Rightarrow> pstate" where
  "num_step NMinus c st =
     (if c = CHR ''0'' then Run (Num NZero) st
      else if is_digit19 c then Run (Num NInt) st
      else Fail)"
| "num_step NZero c st =
     (if c = CHR ''.'' then Run (Num NDot) st
      else if c = CHR ''e'' \<or> c = CHR ''E'' then Run (Num NExp) st
      else after_value c st)"
| "num_step NInt c st =
     (if is_digit c then Run (Num NInt) st
      else if c = CHR ''.'' then Run (Num NDot) st
      else if c = CHR ''e'' \<or> c = CHR ''E'' then Run (Num NExp) st
      else after_value c st)"
| "num_step NDot c st = (if is_digit c then Run (Num NFrac) st else Fail)"
| "num_step NFrac c st =
     (if is_digit c then Run (Num NFrac) st
      else if c = CHR ''e'' \<or> c = CHR ''E'' then Run (Num NExp) st
      else after_value c st)"
| "num_step NExp c st =
     (if c = CHR ''+'' \<or> c = CHR ''-'' then Run (Num NExpSign) st
      else if is_digit c then Run (Num NExpDigits) st
      else Fail)"
| "num_step NExpSign c st = (if is_digit c then Run (Num NExpDigits) st else Fail)"
| "num_step NExpDigits c st =
     (if is_digit c then Run (Num NExpDigits) st else after_value c st)"

fun mode_step :: "mode \<Rightarrow> char \<Rightarrow> frame list \<Rightarrow> pstate" where
  "mode_step Value c st = (if is_ws c then Run Value st else begin_value c st)"
| "mode_step ValueOrClose c st =
     (if is_ws c then Run ValueOrClose st
      else if c = CHR '']'' then
        (case st of InArray # st' \<Rightarrow> Run After st' | _ \<Rightarrow> Fail)
      else begin_value c st)"
| "mode_step KeyOrClose c st =
     (if is_ws c then Run KeyOrClose st
      else if c = CHR 0x22 then Run (Str Key SChar) st
      else if c = CHR ''}'' then
        (case st of InObject # st' \<Rightarrow> Run After st' | _ \<Rightarrow> Fail)
      else Fail)"
| "mode_step NextKey c st =
     (if is_ws c then Run NextKey st
      else if c = CHR 0x22 then Run (Str Key SChar) st
      else Fail)"
| "mode_step Colon c st =
     (if is_ws c then Run Colon st
      else if c = CHR '':'' then Run Value st
      else Fail)"
| "mode_step (Str r q) c st = str_step r q c st"
| "mode_step (Num q) c st = num_step q c st"
| "mode_step (Lit []) c st = Fail"
| "mode_step (Lit (x # xs)) c st =
     (if c = x then (if xs = [] then Run After st else Run (Lit xs) st) else Fail)"
| "mode_step After c st = after_value c st"

fun step :: "pstate \<Rightarrow> char \<Rightarrow> pstate" where
  "step Fail c = Fail"
| "step (Run m st) c = mode_step m c st"

text \<open>The text is accepted when a value is complete and nothing is left open.\<close>

fun accepting :: "pstate \<Rightarrow> bool" where
  "accepting (Run After []) = True"
| "accepting (Run (Num q) []) = (q = NZero \<or> q = NInt \<or> q = NFrac \<or> q = NExpDigits)"
| "accepting _ = False"

definition json_text :: "string \<Rightarrow> bool" where
  "json_text s = accepting (foldl step (Run Value []) s)"

text \<open>
  \<open>JSON.parse(text)\<close>: a \<open>SyntaxError\<close> for a text outside the grammar, otherwise the value
  of the text. The parameter \<open>build\<close> is the value the built-in constructs, whatever its
  representation; \<open>None\<close> is the value \<open>null\<close>, which the text \<open>null\<close> denotes as well.
\<close>

definition JSON_parse :: "(string \<Rightarrow> 'v option) \<Rightarrow> string \<Rightarrow> exn + 'v option" where
  "JSON_parse build s = (if json_text s then Inr (build s) else Inl SyntaxError)"

subsection \<open>Requests and responses of the client library\<close>

text \<open>
  The types of the client library are not part of the module. They are modelled by the
  fields the module writes and reads, and every field that the library leaves optional
  is an \<open>option\<close>. A response part carries text, inline binary data, or neither; the
  payload and the mime type of inline data, the candidates of a response, the content
  of a candidate and the parts of a content may each be absent.
\<close>

record blob =
  data :: "string option"
  mimeType :: "string option"

record part =
  part_text :: "string option"
  inlineData :: "blob option"

record content =
  parts :: "part list option"

record candidate =
  content :: "content option"

record response =
  response_text :: "string option"
  candidates :: "candidate list option"

datatype modality = TEXT | IMAGE | AUDIO

text \<open>
  A response schema as the module writes it: \<open>STRING\<close> with its optional description and
  enumeration, \<open>BOOLEAN\<close>, \<open>OBJECT\<close> with its properties in order and its optional list of
  required names, \<open>ARRAY\<close> with the schema of its items.
\<close>

datatype schema =
    STRING "string option" "string list option"
  | BOOLEAN
  | OBJECT "(string \<times> schema) list" "string list option"
  | ARRAY schema

record config =
  responseMimeType :: "string option"
  responseSchema :: "schema option"
  responseModalities :: "modality list option"

datatype contents = Prompt string | Parts "part list"

record request =
  model :: string
  contents :: contents
  config :: "config option"

subsection \<open>Observable effects\<close>

text \<open>
  \<open>console.error("Failed to parse JSON:", error, "Original string:", jsonString)\<close> writes
  one line with the error caught and the argument of the decoder.
\<close>

record log_entry =
  error :: exn
  original :: "string option"

datatype outbound = GenerateContent request | SendMessage string

record world =
  sent :: "outbound list"
  console :: "log_entry list"

text \<open>
  \<open>await ai.models.generateContent(request)\<close>: the request goes out once; the endpoint
  \<open>ep\<close> answers with a failure of the transport or with a response.
\<close>

definition generateContent ::
  "(request \<Rightarrow> exn + response) \<Rightarrow> request \<Rightarrow> world \<Rightarrow> (exn + response) \<times> world" where
  "generateContent ep req w = (ep req, w\<lparr>sent := sent w @ [GenerateContent req]\<rparr>)"

text \<open>
  \<open>await chat.sendMessage({ message })\<close>: the session belongs to the client library; the
  module sees the reply it gives to the message.
\<close>

definition sendMessage ::
  "(string \<Rightarrow> exn + response) \<Rightarrow> string \<Rightarrow> world \<Rightarrow> (exn + response) \<times> world" where
  "sendMessage chat message w = (chat message, w\<lparr>sent := sent w @ [SendMessage message]\<rparr>)"

subsection \<open>The decoder \<open>safeJsonParse\<close>\<close>

text \<open>
  The body of the \<open>try\<close> block. The argument is \<open>response.text\<close>, which the client library
  leaves undefined when the response has no text; \<open>.replace\<close> on it is a \<open>TypeError\<close>.
\<close>

definition safeJsonParse_try :: "(string \<Rightarrow> 'v option) \<Rightarrow> string option \<Rightarrow> exn + 'v option" where
  "safeJsonParse_try build jsonString =
     (case jsonString of
        None \<Rightarrow> Inl TypeError
      | Some s \<Rightarrow> JSON_parse build (cleanedString s))"

text \<open>
  The whole function: the \<open>catch\<close> clause takes every exception of the body, writes the
  diagnostic and returns \<open>null\<close>.
\<close>

definition safeJsonParse ::
  "(string \<Rightarrow> 'v option) \<Rightarrow> string option \<Rightarrow> world \<Rightarrow> 'v option \<times> world" where
  "safeJsonParse build jsonString w =
     (case safeJsonParse_try build jsonString of
        Inr v \<Rightarrow> (v, w)
      | Inl e \<Rightarrow>
          (None, w\<lparr>console := console w @ [\<lparr>error = e, original = jsonString\<rparr>]\<rparr>))"

subsection \<open>Chat relay and image description\<close>

definition sendChatFulfillment ::
  "(string \<Rightarrow> exn + response) \<Rightarrow> string \<Rightarrow> world \<Rightarrow> (exn + string option) \<times> world" where
  "sendChatFulfillment chat message w =
     (case sendMessage chat message w of
        (Inl e, w') \<Rightarrow> (Inl e, w')
      | (Inr response, w') \<Rightarrow> (Inr (response_text response), w'))"

definition analyzeImageRequest :: "string \<Rightarrow> string \<Rightarrow> request" where
  "analyzeImageRequest imageBase64 mimeType' =
     \<lparr>model = ''gemini-2.5-flash'',
      contents = Parts
        [\<lparr>part_text = Some
            (''Describe this image in detail. What is the subject, what is '' @
             ''happening, and what is the style?''),
          inlineData = None\<rparr>,
         \<lparr>part_text = None,
          inlineData = Some \<lparr>data = Some imageBase64, mimeType = Some mimeType'\<rparr>\<rparr>],
      config = None\<rparr>"

definition analyzeImage ::
  "(request \<Rightarrow> exn + response) \<Rightarrow> string \<Rightarrow> string \<Rightarrow> world
     \<Rightarrow> (exn + string option) \<times> world" where
  "analyzeImage ep imageBase64 mimeType' w =
     (case generateContent ep (analyzeImageRequest imageBase64 mimeType') w of
        (Inl e, w') \<Rightarrow> (Inl e, w')
      | (Inr response, w') \<Rightarrow> (Inr (response_text response), w'))"

subsection \<open>Image editing\<close>

definition editImageRequest :: "string \<Rightarrow> string \<Rightarrow> string \<Rightarrow> request" where
  "editImageRequest imageBase64 mimeType' prompt =
     \<lparr>model = ''gemini-2.5-flash-image'',
      contents = Parts
        [\<lparr>part_text = None,
          inlineData = Some \<lparr>data = Some imageBase64, mimeType = Some mimeType'\<rparr>\<rparr>,
         \<lparr>part_text = Some prompt, inlineData = None\<rparr>],
      config = Some
        \<lparr>responseMimeType = None,
         responseSchema = None,
         responseModalities = Some [IMAGE]\<rparr>\<rparr>"

text \<open>
  The loop \<open>for (const part of ...) { if (part.inlineData) return part.inlineData.data; }\<close>
  followed by \<open>return null\<close>: the extraction that the specification calls \<open>firstImage\<close>.
  The test is on \<open>part.inlineData\<close> alone: the loop ends at the first part that has inline
  data and returns its \<open>data\<close> unchecked, so the result is absent when that field is.
\<close>

fun firstImage :: "part list \<Rightarrow> string option" where
  "firstImage [] = None"
| "firstImage (p # rest) =
     (case inlineData p of
        Some b \<Rightarrow> data b
      | None \<Rightarrow> firstImage rest)"

text \<open>
  \<open>response.candidates[0].content.parts\<close>: reading an index or a property of
  \<open>undefined\<close>, and iterating over \<open>undefined\<close>, is a \<open>TypeError\<close>.
\<close>

definition response_parts :: "response \<Rightarrow> exn + part list" where
  "response_parts response =
     (case candidates response of
        None \<Rightarrow> Inl TypeError
      | Some [] \<Rightarrow> Inl TypeError
      | Some (c # _) \<Rightarrow>
          (case content c of
             None \<Rightarrow> Inl TypeError
           | Some ct \<Rightarrow>
               (case parts ct of
                  None \<Rightarrow> Inl TypeError
                | Some ps \<Rightarrow> Inr ps)))"

definition editImage_extract :: "response \<Rightarrow> exn + string option" where
  "editImage_extract response =
     (case response_parts response of
        Inl e \<Rightarrow> Inl e
      | Inr ps \<Rightarrow> Inr (firstImage ps))"

definition editImage ::
  "(request \<Rightarrow> exn + response) \<Rightarrow> string \<Rightarrow> string \<Rightarrow> string \<Rightarrow> world
     \<Rightarrow> (exn + string option) \<times> world" where
  "editImage ep imageBase64 mimeType' prompt w =
     (case generateContent ep (editImageRequest imageBase64 mimeType' prompt) w of
        (Inl e, w') \<Rightarrow> (Inl e, w')
      | (Inr response, w') \<Rightarrow> (editImage_extract response, w'))"

subsection \<open>Schema-constrained generation\<close>

text \<open>
  Each of the six functions below sends one request with a prompt and a response schema
  and gives the text of the response to the decoder. In the prompts a character outside
  ASCII is written as the bytes of its UTF-8 encoding.
\<close>

definition jsonConfig :: "schema \<Rightarrow> config" where
  "jsonConfig s =
     \<lparr>responseMimeType = Some ''application/json'',
      responseSchema = Some s,
      responseModalities = None\<rparr>"

definition userProfileRequest :: request where
  "userProfileRequest =
     \<lparr>model = ''gemini-2.5-flash'',
      contents = Prompt
       (''Generate a realistic but fake user profile for a Gemini power user. '' @
        ''Include name, email, a short bio, and preferences for theme and '' @
        ''notifications. Provide an avatarUrl using picsum.photos. Respond in '' @
        ''JSON format.''),
      config = Some (jsonConfig
        (OBJECT
          [(''name'', STRING None None),
           (''email'', STRING None None),
           (''bio'', STRING (Some ''A short, interesting bio.'') None),
           (''avatarUrl'', STRING (Some ''A URL from picsum.photos.'') None),
           (''preferences'',
              OBJECT
                [(''theme'', STRING None (Some [''dark'', ''light''])),
                 (''notifications'', BOOLEAN)]
                None)]
          (Some [''name'', ''email'', ''bio'', ''avatarUrl'', ''preferences''])))\<rparr>"

definition generateUserProfile ::
  "(string \<Rightarrow> 'v option) \<Rightarrow> (request \<Rightarrow> exn + response) \<Rightarrow> world
     \<Rightarrow> (exn + 'v option) \<times> world" where
  "generateUserProfile build ep w =
     (case generateContent ep userProfileRequest w of
        (Inl e, w') \<Rightarrow> (Inl e, w')
      | (Inr response, w') \<Rightarrow>
          (case safeJsonParse build (response_text response) w' of
             (v, w'') \<Rightarrow> (Inr v, w'')))"

definition chatListRequest :: request where
  "chatListRequest =
     \<lparr>model = ''gemini-2.5-flash'',
      contents = Prompt
       (''Generate a list of 5 recent chat conversations. Each chat should have '' @
        ''an id (uuid), a short, catchy title, a one-sentence summary, and a '' @
        ''lastUpdated timestamp (as an ISO string). Respond in JSON format.''),
      config = Some (jsonConfig
        (ARRAY
          (OBJECT
            [(''id'', STRING None None),
             (''title'', STRING None None),
             (''summary'', STRING None None),
             (''lastUpdated'', STRING None None)]
            (Some [''id'', ''title'', ''summary'', ''lastUpdated'']))))\<rparr>"

definition generateChatList ::
  "(string \<Rightarrow> 'v option) \<Rightarrow> (request \<Rightarrow> exn + response) \<Rightarrow> world
     \<Rightarrow> (exn + 'v option) \<times> world" where
  "generateChatList build ep w =
     (case generateContent ep chatListRequest w of
        (Inl e, w') \<Rightarrow> (Inl e, w')
      | (Inr response, w') \<Rightarrow>
          (case safeJsonParse build (response_text response) w' of
             (v, w'') \<Rightarrow> (Inr v, w'')))"

definition chatHistoryPrompt :: "string \<Rightarrow> string" where
  "chatHistoryPrompt chatTitle =
     ''Generate a realistic chat history for a conversation titled \"'' @
     chatTitle @
     ''\". Create about 6-10 messages, alternating between 'user' and '' @
     [CHR 0x27] @
     ''gemini' as the sender. Each message should have an id (uuid), '' @
     ''sender, content, and a timestamp (ISO string). Respond in JSON format.''"

definition chatHistoryRequest :: "string \<Rightarrow> request" where
  "chatHistoryRequest chatTitle =
     \<lparr>model = ''gemini-2.5-flash'',
      contents = Prompt (chatHistoryPrompt chatTitle),
      config = Some (jsonConfig
        (ARRAY
          (OBJECT
            [(''id'', STRING None None),
             (''sender'', STRING None (Some [''user'', ''gemini''])),
             (''content'', STRING None None),
             (''timestamp'', STRING None None)]
            (Some [''id'', ''sender'', ''content'', ''timestamp'']))))\<rparr>"

definition generateChatHistory ::
  "(string \<Rightarrow> 'v option) \<Rightarrow> (request \<Rightarrow> exn + response) \<Rightarrow> string \<Rightarrow> world
     \<Rightarrow> (exn + 'v option) \<times> world" where
  "generateChatHistory build ep chatTitle w =
     (case generateContent ep (chatHistoryRequest chatTitle) w of
        (Inl e, w') \<Rightarrow> (Inl e, w')
      | (Inr response, w') \<Rightarrow>
          (case safeJsonParse build (response_text response) w' of
             (v, w'') \<Rightarrow> (Inr v, w'')))"

definition canvasListRequest :: request where
  "canvasListRequest =
     \<lparr>model = ''gemini-2.5-flash'',
      contents = Prompt
       (''Generate a list of 6 creative \"canvases\". Each canvas should have an '' @
        ''id (uuid), a title, a type from ['Code Project', 'Document', '' @
        [CHR 0x27] @
        ''Whiteboard', 'Design Mockup'], a thumbnailUrl from picsum.photos '' @
        ''(e.g., https://picsum.photos/400/300), and a lastModified date (ISO '' @
        ''string). Respond in JSON format.''),
      config = Some (jsonConfig
        (ARRAY
          (OBJECT
            [(''id'', STRING None None),
             (''title'', STRING None None),
             (''type'', STRING None
                (Some [''Code Project'', ''Document'', ''Whiteboard'', ''Design Mockup''])),
             (''thumbnailUrl'', STRING None None),
             (''lastModified'', STRING None None)]
            (Some [''id'', ''title'', ''type'', ''thumbnailUrl'', ''lastModified'']))))\<rparr>"

definition generateCanvasList ::
  "(string \<Rightarrow> 'v option) \<Rightarrow> (request \<Rightarrow> exn + response) \<Rightarrow> world
     \<Rightarrow> (exn + 'v option) \<times> world" where
  "generateCanvasList build ep w =
     (case generateContent ep canvasListRequest w of
        (Inl e, w') \<Rightarrow> (Inl e, w')
      | (Inr response, w') \<Rightarrow>
          (case safeJsonParse build (response_text response) w' of
             (v, w'') \<Rightarrow> (Inr v, w'')))"

definition memoryLog :: string where
  "memoryLog =
     ''\<newline>'' @
     ''    FAA'' @
     [CHR 0xE2, CHR 0x84, CHR 0xA2] @
     '' Omni-Level Counter Marketing & Execution Methods '' @
     [CHR 0xE2, CHR 0x80, CHR 0x93] @
     '' Memory Log\<newline>'' @
     ''    '' @
     [CHR 0xF0, CHR 0x9F, CHR 0x93, CHR 0x8C] @
     '' Timestamp: March 6, 2025\<newline>'' @
     ''    '' @
     [CHR 0xF0, CHR 0x9F, CHR 0x93, CHR 0x8C] @
     '' FAA'' @
     [CHR 0xE2, CHR 0x84, CHR 0xA2] @
     '' Master Execution Memory Update\<newline>'' @
     ''\<newline>'' @
     ''    '' @
     [CHR 0xF0, CHR 0x9F, CHR 0x9A, CHR 0x80] @
     '' Omni-Level FAA'' @
     [CHR 0xE2, CHR 0x84, CHR 0xA2] @
     '' Marketing Execution for Counter-Marketing & Market Optimization\<newline>'' @
     ''    Objective: Enhance brand engagement, mitigate brand risks, and '' @
     ''ensure global market alignment by executing FAA'' @
     [CHR 0xE2, CHR 0x84, CHR 0xA2] @
     '' Omni-Level Marketing across Counter-Marketing, AI-driven strategic '' @
     ''Brand Infiltration, and High-Level Market Structuring.\<newline>'' @
     ''\<newline>'' @
     ''    '' @
     [CHR 0xF0, CHR 0x9F, CHR 0x8C, CHR 0x8D] @
     '' FAA'' @
     [CHR 0xE2, CHR 0x84, CHR 0xA2] @
     '' Counter-Marketing Execution Methods Applied\<newline>'' @
     ''    '' @
     [CHR 0xE2, CHR 0x9C, CHR 0x85] @
     '' FAA'' @
     [CHR 0xE2, CHR 0x84, CHR 0xA2] @
     '' AI Response Engineering'' @
     [CHR 0xE2, CHR 0x84, CHR 0xA2] @
     '' '' @
     [CHR 0xE2, CHR 0x80, CHR 0x93] @
     '' Crafting real-time counter-strategies to market disruptions and '' @
     ''competitive tactics.\<newline>'' @
     ''    '' @
     [CHR 0xE2, CHR 0x9C, CHR 0x85] @
     '' FAA'' @
     [CHR 0xE2, CHR 0x84, CHR 0xA2] @
     '' Targeted Brand Expansion'' @
     [CHR 0xE2, CHR 0x84, CHR 0xA2] @
     '' '' @
     [CHR 0xE2, CHR 0x80, CHR 0x93] @
     '' Direct engagement with corporate entities to introduce FAA'' @
     [CHR 0xE2, CHR 0x84, CHR 0xA2] @
     '' systems for efficiency, automation, and risk mitigation.\<newline>'' @
     ''    '' @
     [CHR 0xE2, CHR 0x9C, CHR 0x85] @
     '' FAA'' @
     [CHR 0xE2, CHR 0x84, CHR 0xA2] @
     '' Shock-Response Marketing'' @
     [CHR 0xE2, CHR 0x84, CHR 0xA2] @
     '' '' @
     [CHR 0xE2, CHR 0x80, CHR 0x93] @
     '' Leveraging industry trends & consumer behaviors to trigger immediate '' @
     ''engagement & brand recall.\<newline>'' @
     ''    '' @
     [CHR 0xE2, CHR 0x9C, CHR 0x85] @
     '' FAA'' @
     [CHR 0xE2, CHR 0x84, CHR 0xA2] @
     '' Strategic Counter-Positioning'' @
     [CHR 0xE2, CHR 0x84, CHR 0xA2] @
     '' '' @
     [CHR 0xE2, CHR 0x80, CHR 0x93] @
     '' Positioning FAA'' @
     [CHR 0xE2, CHR 0x84, CHR 0xA2] @
     '' solutions as the superior alternative to traditional corporate '' @
     ''structures.\<newline>'' @
     ''    '' @
     [CHR 0xE2, CHR 0x9C, CHR 0x85] @
     '' FAA'' @
     [CHR 0xE2, CHR 0x84, CHR 0xA2] @
     '' Systemized Response Timing'' @
     [CHR 0xE2, CHR 0x84, CHR 0xA2] @
     '' '' @
     [CHR 0xE2, CHR 0x80, CHR 0x93] @
     '' Ensuring ultra-fast marketing execution in response to competitor '' @
     ''moves, PR incidents, or industry shifts.\<newline>'' @
     ''\<newline>'' @
     ''    '' @
     [CHR 0xF0, CHR 0x9F, CHR 0x94, CHR 0x8E] @
     '' FAA'' @
     [CHR 0xE2, CHR 0x84, CHR 0xA2] @
     '' Applied Marketing Scenarios & Counter-Positioning\<newline>'' @
     ''    1'' @
     [CHR 0xEF, CHR 0xB8, CHR 0x8F, CHR 0xE2, CHR 0x83, CHR 0xA3] @
     '' '' @
     [CHR 0xF0, CHR 0x9F, CHR 0x9A, CHR 0x80] @
     '' FAA'' @
     [CHR 0xE2, CHR 0x84, CHR 0xA2] @
     '' x KFC'' @
     [CHR 0xE2, CHR 0x84, CHR 0xA2] @
     '' '' @
     [CHR 0xE2, CHR 0x80, CHR 0x93] @
     '' AI-Driven Supply Chain Optimization\<newline>'' @
     ''    '' @
     [CHR 0xE2, CHR 0x9C, CHR 0x85] @
     '' Issue Identified: Stockouts at KFC'' @
     [CHR 0xE2, CHR 0x84, CHR 0xA2] @
     '' locations create negative brand perception.\<newline>'' @
     ''    '' @
     [CHR 0xE2, CHR 0x9C, CHR 0x85] @
     '' FAA'' @
     [CHR 0xE2, CHR 0x84, CHR 0xA2] @
     '' Solution: Position FAA'' @
     [CHR 0xE2, CHR 0x84, CHR 0xA2] @
     '' as the go-to supply chain AI ensuring zero shortages, optimized '' @
     ''vendor flow, and real-time tracking.\<newline>'' @
     ''    '' @
     [CHR 0xE2, CHR 0x9C, CHR 0x85] @
     '' Tactics Used: Direct corporate engagement, industry PR injection, FAA'' @
     [CHR 0xE2, CHR 0x84, CHR 0xA2] @
     '' AI-Supply Chain dominance messaging.\<newline>'' @
     ''\<newline>'' @
     ''    2'' @
     [CHR 0xEF, CHR 0xB8, CHR 0x8F, CHR 0xE2, CHR 0x83, CHR 0xA3] @
     '' '' @
     [CHR 0xF0, CHR 0x9F, CHR 0x94, CHR 0xA5] @
     '' FAA'' @
     [CHR 0xE2, CHR 0x84, CHR 0xA2] @
     '' x McDonald's'' @
     [CHR 0xE2, CHR 0x84, CHR 0xA2] @
     '' '' @
     [CHR 0xE2, CHR 0x80, CHR 0x93] @
     '' Strategic Omni-Marketing Expansion\<newline>'' @
     ''    '' @
     [CHR 0xE2, CHR 0x9C, CHR 0x85] @
     '' Issue Identified: McDonald's'' @
     [CHR 0xE2, CHR 0x84, CHR 0xA2] @
     '' promotional campaigns focus on discounts rather than AI-driven '' @
     ''engagement.\<newline>'' @
     ''    '' @
     [CHR 0xE2, CHR 0x9C, CHR 0x85] @
     '' FAA'' @
     [CHR 0xE2, CHR 0x84, CHR 0xA2] @
     '' Solution: Offer FAA'' @
     [CHR 0xE2, CHR 0x84, CHR 0xA2] @
     '' Ecosystem AI-Powered Marketing Solutions'' @
     [CHR 0xE2, CHR 0x84, CHR 0xA2] @
     '' to redefine engagement, optimize promotions, and maximize QSR '' @
     ''performance.\<newline>'' @
     ''    '' @
     [CHR 0xE2, CHR 0x9C, CHR 0x85] @
     '' Tactics Used: Direct proposal, omnichannel email engagement, and FAA'' @
     [CHR 0xE2, CHR 0x84, CHR 0xA2] @
     '' AI-driven counter-marketing automation.\<newline>'' @
     ''\<newline>'' @
     ''    3'' @
     [CHR 0xEF, CHR 0xB8, CHR 0x8F, CHR 0xE2, CHR 0x83, CHR 0xA3] @
     '' '' @
     [CHR 0xF0, CHR 0x9F, CHR 0x92, CHR 0xB0] @
     '' FAA'' @
     [CHR 0xE2, CHR 0x84, CHR 0xA2] @
     '' x ClearScore'' @
     [CHR 0xE2, CHR 0x84, CHR 0xA2] @
     '' '' @
     [CHR 0xE2, CHR 0x80, CHR 0x93] @
     '' Financial System Enhancement\<newline>'' @
     ''    '' @
     [CHR 0xE2, CHR 0x9C, CHR 0x85] @
     '' Issue Identified: Financial offers lack FAA'' @
     [CHR 0xE2, CHR 0x84, CHR 0xA2] @
     ''-level compliance & AI-driven execution.\<newline>'' @
     ''    '' @
     [CHR 0xE2, CHR 0x9C, CHR 0x85] @
     '' FAA'' @
     [CHR 0xE2, CHR 0x84, CHR 0xA2] @
     '' Solution: Position FAA'' @
     [CHR 0xE2, CHR 0x84, CHR 0xA2] @
     '' Governance Ledger'' @
     [CHR 0xE2, CHR 0x84, CHR 0xA2] @
     '' and FAA'' @
     [CHR 0xE2, CHR 0x84, CHR 0xA2] @
     '' AI Credit Optimization'' @
     [CHR 0xE2, CHR 0x84, CHR 0xA2] @
     '' as the new standard for financial decision-making.\<newline>'' @
     ''    '' @
     [CHR 0xE2, CHR 0x9C, CHR 0x85] @
     '' Tactics Used: Engagement email with compliance-driven financial '' @
     ''optimization proposal.\<newline>'' @
     ''    ''"

definition vaultNodesPrompt :: string where
  "vaultNodesPrompt =
     ''Based on the following FAA'' @
     [CHR 0xE2, CHR 0x84, CHR 0xA2] @
     '' Memory Log, parse the content to generate a list of \"Design Vault\" '' @
     ''nodes. Specifically:\<newline>'' @
     ''        1. From the \"FAA'' @
     [CHR 0xE2, CHR 0x84, CHR 0xA2] @
     '' Counter-Marketing Execution Methods Applied\" section, create a node '' @
     ''for each method. Use the method's full name as the 'title' and its '' @
     ''description as the 'description'. Set the 'type' to 'Execution '' @
     ''Method' and 'status' to 'Active'.\<newline>'' @
     ''        2. From the \"FAA'' @
     [CHR 0xE2, CHR 0x84, CHR 0xA2] @
     '' Applied Marketing Scenarios & Counter-Positioning\" section, create a '' @
     ''node for each scenario. Use the scenario's title (e.g., \"FAA'' @
     [CHR 0xE2, CHR 0x84, CHR 0xA2] @
     '' x KFC'' @
     [CHR 0xE2, CHR 0x84, CHR 0xA2] @
     '' '' @
     [CHR 0xE2, CHR 0x80, CHR 0x93] @
     '' AI-Driven Supply Chain Optimization\") as the 'title' and the \"FAA'' @
     [CHR 0xE2, CHR 0x84, CHR 0xA2] @
     '' Solution\" text as the 'description'. Set the 'type' to 'Marketing '' @
     ''Protocol' and 'status' to 'Active'.\<newline>'' @
     ''        Generate exactly 8 nodes in total based on this logic. Each '' @
     ''node must have an id (uuid).\<newline>'' @
     ''        Respond in JSON format.\<newline>'' @
     ''        MEMORY LOG: \"\"\"'' @
     memoryLog @
     ''\"\"\"''"

definition vaultNodesRequest :: request where
  "vaultNodesRequest =
     \<lparr>model = ''gemini-2.5-flash'',
      contents = Prompt vaultNodesPrompt,
      config = Some (jsonConfig
        (ARRAY
          (OBJECT
            [(''id'', STRING None None),
             (''title'', STRING None None),
             (''description'', STRING None None),
             (''type'', STRING None
                (Some [''Marketing Protocol'', ''Execution Method'', ''Core System'',
                       ''Signal Protocol'', ''Data Layer'', ''UI Component'',
                       ''Security Key''])),
             (''status'', STRING None
                (Some [''Active'', ''Dormant'', ''Building'', ''Locked'']))]
            (Some [''id'', ''title'', ''description'', ''type'', ''status'']))))\<rparr>"

definition generateVaultNodes ::
  "(string \<Rightarrow> 'v option) \<Rightarrow> (request \<Rightarrow> exn + response) \<Rightarrow> world
     \<Rightarrow> (exn + 'v option) \<times> world" where
  "generateVaultNodes build ep w =
     (case generateContent ep vaultNodesRequest w of
        (Inl e, w') \<Rightarrow> (Inl e, w')
      | (Inr response, w') \<Rightarrow>
          (case safeJsonParse build (response_text response) w' of
             (v, w'') \<Rightarrow> (Inr v, w'')))"

definition zohoIntegrationsRequest :: request where
  "zohoIntegrationsRequest =
     \<lparr>model = ''gemini-2.5-flash'',
      contents = Prompt
       (''Generate a list of 7 conceptual Zoho integrations for a master system '' @
        ''called \"FAA.Zone\". Ensure one of the integrations is a 'Custom App' '' @
        ''named 'Global Compliance Tracker' with a 'Pending' status and a '' @
        ''description about monitoring cross-border regulatory adherence for FAA'' @
        [CHR 0xE2, CHR 0x84, CHR 0xA2] @
        '' operations. For all integrations, include an id (uuid), a name, a '' @
        ''short description, a category from ['CRM', 'Finance', 'HR', '' @
        [CHR 0x27] @
        ''Marketing', 'Custom App'], a status from ['Live', 'Pending', '' @
        [CHR 0x27] @
        ''Error'], and a realistic but fake url (e.g., '' @
        ''\"https://crm.zoho.faa.zone\"). Respond in JSON format.''),
      config = Some (jsonConfig
        (ARRAY
          (OBJECT
            [(''id'', STRING None None),
             (''name'', STRING None None),
             (''description'', STRING None None),
             (''category'', STRING None
                (Some [''CRM'', ''Finance'', ''HR'', ''Marketing'', ''Custom App''])),
             (''status'', STRING None (Some [''Live'', ''Pending'', ''Error''])),
             (''url'', STRING None None)]
            (Some [''id'', ''name'', ''description'', ''category'', ''status'', ''url'']))))\<rparr>"

definition generateZohoIntegrations ::
  "(string \<Rightarrow> 'v option) \<Rightarrow> (request \<Rightarrow> exn + response) \<Rightarrow> world
     \<Rightarrow> (exn + 'v option) \<times> world" where
  "generateZohoIntegrations build ep w =
     (case generateContent ep zohoIntegrationsRequest w of
        (Inl e, w') \<Rightarrow> (Inl e, w')
      | (Inr response, w') \<Rightarrow>
          (case safeJsonParse build (response_text response) w' of
             (v, w'') \<Rightarrow> (Inr v, w'')))"

subsection \<open>Log extraction\<close>

definition takeoutPrompt :: "string \<Rightarrow> string" where
  "takeoutPrompt takeoutData =
     ''\<newline>'' @
     ''        You are an expert data processor. Your task is to analyze the '' @
     ''provided raw Google Takeout data (which could be in HTML or JSON '' @
     ''format) and consolidate it into a single, clean, structured JSON '' @
     ''object.\<newline>'' @
     ''\<newline>'' @
     ''        Follow these rules strictly:\<newline>'' @
     ''        1.  Identify all the chat interactions with Gemini.\<newline>'' @
     ''        2.  For each interaction, extract: a unique ID (generate a '' @
     ''UUID), the user's prompt, Gemini's response, and the timestamp.\<newline>'' @
     ''        3.  Structure the final output as a JSON array of these '' @
     ''interaction objects.\<newline>'' @
     ''        4.  The output must be ONLY the JSON object, without any '' @
     ''surrounding text or markdown.\<newline>'' @
     ''\<newline>'' @
     ''        Raw Takeout data:\<newline>'' @
     ''        \"\"\"\<newline>'' @
     ''        '' @
     takeoutData @
     ''\<newline>'' @
     ''        \"\"\"\<newline>'' @
     ''    ''"

definition takeoutRequest :: "string \<Rightarrow> request" where
  "takeoutRequest takeoutData =
     \<lparr>model = ''gemini-2.5-pro'',
      contents = Prompt (takeoutPrompt takeoutData),
      config = Some
        \<lparr>responseMimeType = Some ''application/json'',
         responseSchema = None,
         responseModalities = None\<rparr>\<rparr>"

definition processTakeoutData ::
  "(request \<Rightarrow> exn + response) \<Rightarrow> string \<Rightarrow> world \<Rightarrow> (exn + string option) \<times> world" where
  "processTakeoutData ep takeoutData w =
     (case generateContent ep (takeoutRequest takeoutData) w of
        (Inl e, w') \<Rightarrow> (Inl e, w')
      | (Inr response, w') \<Rightarrow> (Inr (response_text response), w'))"

subsection \<open>The generation call sites and the extraction contract\<close>

text \<open>
  The six functions that decode the response, each with the request it sends. The chat
  history is requested for the title \<open>chatTitle\<close>.
\<close>

definition generation_calls ::
  "(string \<Rightarrow> 'v option) \<Rightarrow> string
     \<Rightarrow> (((request \<Rightarrow> exn + response) \<Rightarrow> world \<Rightarrow> (exn + 'v option) \<times> world)
          \<times> request) list" where
  "generation_calls build chatTitle =
     [(generateUserProfile build, userProfileRequest),
      (generateChatList build, chatListRequest),
      (\<lambda>ep. generateChatHistory build ep chatTitle, chatHistoryRequest chatTitle),
      (generateCanvasList build, canvasListRequest),
      (generateVaultNodes build, vaultNodesRequest),
      (generateZohoIntegrations build, zohoIntegrationsRequest)]"

text \<open>
  The contract that the specification gives for the extraction, in its own words: the
  byte payload and the mime type of the first inline-binary segment, or nothing. It is
  compared with \<open>firstImage\<close>, the loop of the source.
\<close>

fun firstImage_spec :: "part list \<Rightarrow> (string option \<times> string option) option" where
  "firstImage_spec [] = None"
| "firstImage_spec (p # rest) =
     (case inlineData p of
        Some b \<Rightarrow> Some (data b, mimeType b)
      | None \<Rightarrow> firstImage_spec rest)"

text \<open>
  The recogniser keeps the rest of a literal (\<open>true\<close>, \<open>false\<close>, \<open>null\<close>) as a string; the
  states it reaches never expect a backtick there.
\<close>

fun lit_ok :: "pstate \<Rightarrow> bool" where
  "lit_ok (Run (Lit xs) st) = (CHR 0x60 \<notin> set xs)"
| "lit_ok _ = True"

section \<open>Properties\<close>

subsection \<open>The recogniser and the markers\<close>

lemma foldl_step_Fail: "foldl step Fail s = Fail"
  by (induction s) auto

lemma after_value_backtick: "after_value (CHR 0x60) st = Fail"
  by (simp add: after_value_def is_ws_def)

lemma begin_value_backtick: "begin_value (CHR 0x60) st = Fail"
  by (simp add: begin_value_def is_digit19_def)

lemma str_step_backtick: "\<not> accepting (str_step r q (CHR 0x60) st)"
  by (cases q) (simp_all add: is_hex_def is_control_def)

lemma num_step_backtick: "num_step q (CHR 0x60) st = Fail"
  by (cases q) (simp_all add: is_digit_def is_digit19_def after_value_backtick)

lemma lit_ok_after_value: "lit_ok (after_value c st)"
  by (simp add: after_value_def split: list.splits frame.splits)

lemma lit_ok_begin_value: "lit_ok (begin_value c st)"
  by (simp add: begin_value_def)

lemma lit_ok_str_step: "lit_ok (str_step r q c st)"
  by (cases q) (simp_all split: role.splits)

lemma lit_ok_num_step: "lit_ok (num_step q c st)"
  by (cases q) (simp_all add: lit_ok_after_value)

lemma lit_ok_mode_step: "lit_ok (Run m st) \<Longrightarrow> lit_ok (mode_step m c st)"
proof (cases m)
  case (Lit xs)
  assume "lit_ok (Run m st)"
  with Lit show ?thesis by (cases xs) auto
qed (simp_all add: lit_ok_after_value lit_ok_begin_value lit_ok_str_step lit_ok_num_step
      split: list.splits frame.splits)

lemma lit_ok_step: "lit_ok q \<Longrightarrow> lit_ok (step q c)"
  by (cases q) (simp_all add: lit_ok_mode_step)

lemma lit_ok_foldl: "lit_ok q \<Longrightarrow> lit_ok (foldl step q s)"
  by (induction s arbitrary: q) (simp_all add: lit_ok_step)

lemma mode_step_backtick: "lit_ok (Run m st) \<Longrightarrow> \<not> accepting (mode_step m (CHR 0x60) st)"
proof (cases m)
  case (Lit xs)
  assume "lit_ok (Run m st)"
  with Lit show ?thesis by (cases xs) auto
qed (simp_all add: is_ws_def begin_value_backtick after_value_backtick
      str_step_backtick num_step_backtick)

lemma step_backtick: "lit_ok q \<Longrightarrow> \<not> accepting (step q (CHR 0x60))"
  by (cases q) (simp_all add: mode_step_backtick)

text \<open>No text of the grammar starts or ends with a backtick.\<close>

lemma json_text_not_backtick_first: "json_text (CHR 0x60 # s) = False"
  by (simp add: json_text_def is_ws_def begin_value_backtick foldl_step_Fail)

lemma json_text_not_backtick_last: "json_text (s @ [CHR 0x60]) = False"
  by (simp add: json_text_def step_backtick lit_ok_foldl)

lemma json_text_no_leading_marker: "json_text s \<Longrightarrow> \<not> prefix leading_marker s"
  by (auto simp: leading_marker_def prefix_def json_text_not_backtick_first)

lemma json_text_no_trailing_marker: "json_text s \<Longrightarrow> \<not> suffix trailing_marker s"
proof
  assume a: "json_text s" and "suffix trailing_marker s"
  then obtain t where "s = t @ trailing_marker" by (auto simp: suffix_def)
  then have "s = (t @ ''\<newline>``'') @ [CHR 0x60]" by (simp add: trailing_marker_def)
  with a show False using json_text_not_backtick_last by metis
qed

lemma cleanedString_json_text: "json_text s \<Longrightarrow> cleanedString s = s"
  by (simp add: cleanedString_def replace_leading_def replace_trailing_def
      json_text_no_leading_marker json_text_no_trailing_marker)

lemma cleanedString_fenced: "cleanedString (leading_marker @ s @ trailing_marker) = s"
  by (simp add: cleanedString_def replace_leading_def replace_trailing_def suffix_def)

lemma cleanedString_only_markers:
  "\<exists>a b. (a = [] \<or> a = leading_marker) \<and> (b = [] \<or> b = trailing_marker) \<and>
     t = a @ cleanedString t @ b"
proof -
  obtain a where a: "a = [] \<or> a = leading_marker" "t = a @ replace_leading leading_marker t"
    by (cases "prefix leading_marker t") (auto simp: replace_leading_def prefix_def)
  let ?u = "replace_leading leading_marker t"
  obtain b where b: "b = [] \<or> b = trailing_marker" "?u = replace_trailing trailing_marker ?u @ b"
    by (cases "suffix trailing_marker ?u") (auto simp: replace_trailing_def suffix_def)
  from a b show ?thesis unfolding cleanedString_def by metis
qed

subsection \<open>The decoder\<close>

text \<open>
  Claim C1. For every input string that is not a JSON text after the markers are
  stripped, the body of the \<open>try\<close> block raises a \<open>SyntaxError\<close>, the decoder catches it,
  writes the diagnostic with the error and the original string, and returns \<open>null\<close>: the
  result of \<open>safeJsonParse\<close> is a value, never an exception. The empty string and the
  text with leading prose are such inputs (see the witness).
\<close>

theorem safeJsonParse_invalid_null:
  "\<not> json_text (cleanedString s) \<Longrightarrow>
   safeJsonParse_try build (Some s) = Inl SyntaxError \<and>
   safeJsonParse build (Some s) w =
     (None, w\<lparr>console := console w @ [\<lparr>error = SyntaxError, original = Some s\<rparr>]\<rparr>)"
  by (simp add: safeJsonParse_def safeJsonParse_try_def JSON_parse_def)

theorem safeJsonParse_invalid_null_witness:
  "\<not> json_text (cleanedString '''') \<and>
   \<not> json_text (cleanedString ''Sure! Here's your JSON: {\"a\":1}'') \<and>
   fst (safeJsonParse (\<lambda>t. Some t) (Some '''') \<lparr>sent = [], console = []\<rparr>) = None \<and>
   safeJsonParse (\<lambda>t. Some t) (Some ''Sure! Here's your JSON: {\"a\":1}'')
       \<lparr>sent = [], console = []\<rparr> =
     (None, \<lparr>sent = [],
             console = [\<lparr>error = SyntaxError,
                         original = Some ''Sure! Here's your JSON: {\"a\":1}''\<rparr>]\<rparr>)"
proof -
  have e: "\<not> json_text (cleanedString '''')" by code_simp
  have p: "\<not> json_text (cleanedString ''Sure! Here's your JSON: {\"a\":1}'')" by code_simp
  show ?thesis
    using e p
      safeJsonParse_invalid_null [OF e, of "\<lambda>t. Some t" "\<lparr>sent = [], console = []\<rparr>"]
      safeJsonParse_invalid_null [OF p, of "\<lambda>t. Some t" "\<lparr>sent = [], console = []\<rparr>"]
    by simp
qed

text \<open>
  Claim C2. For every JSON text \<open>s\<close>, decoding \<open>s\<close> between the leading marker and the
  trailing marker gives the same result as decoding \<open>s\<close> itself, namely the value of \<open>s\<close>
  with nothing written to the console. Stripping the markers is the only normalisation:
  every text \<open>t\<close> is its cleaned form with at most the leading marker in front and at
  most the trailing marker behind, so no whitespace or other character is removed.
\<close>

theorem safeJsonParse_fenced:
  "json_text s \<Longrightarrow>
   safeJsonParse build (Some (leading_marker @ s @ trailing_marker)) w =
     safeJsonParse build (Some s) w \<and>
   safeJsonParse build (Some s) w = (build s, w) \<and>
   (\<exists>a b. (a = [] \<or> a = leading_marker) \<and> (b = [] \<or> b = trailing_marker) \<and>
      t = a @ cleanedString t @ b)"
proof -
  assume v: "json_text s"
  have u: "cleanedString s = s" using v by (rule cleanedString_json_text)
  show ?thesis
    using v cleanedString_only_markers [of t]
    by (simp add: safeJsonParse_def safeJsonParse_try_def JSON_parse_def cleanedString_fenced u)
qed

theorem safeJsonParse_fenced_witness:
  "json_text ''{\"a\":1}'' \<and>
   safeJsonParse (\<lambda>t. Some (length t)) (Some ''```json\<newline>{\"a\":1}\<newline>```'')
       \<lparr>sent = [], console = []\<rparr> =
     (Some 7, \<lparr>sent = [], console = []\<rparr>) \<and>
   cleanedString ''  [1] \<newline>'' = ''  [1] \<newline>''"
proof -
  have v: "json_text ''{\"a\":1}''" by code_simp
  have c: "cleanedString ''  [1] \<newline>'' = ''  [1] \<newline>''" by code_simp
  show ?thesis
    using v c
      safeJsonParse_fenced [OF v, of "\<lambda>t. Some (length t)" "\<lparr>sent = [], console = []\<rparr>" "[]"]
    by (simp add: leading_marker_def trailing_marker_def)
qed

subsection \<open>The extraction of the edited image\<close>

lemma firstImage_skip:
  "\<forall>q\<in>set pre. inlineData q = None \<Longrightarrow> firstImage (pre @ rest) = firstImage rest"
  by (induction pre) simp_all

lemma firstImage_refines_spec:
  "firstImage ps = (case firstImage_spec ps of None \<Rightarrow> None | Some (d, m) \<Rightarrow> d)"
  by (induction ps) (simp_all split: option.splits)

lemma editImage_result:
  "ep (editImageRequest imageBase64 mimeType' prompt) = Inr response \<Longrightarrow>
   fst (editImage ep imageBase64 mimeType' prompt w) = editImage_extract response"
  by (simp add: editImage_def generateContent_def)

text \<open>
  Claim C3, as the specification states it, asks for the byte payload and the mime type.
  The source returns \<open>part.inlineData.data\<close> alone: two responses that differ in the mime
  type of the image give the same result, while the contract of the specification
  tells them apart.
\<close>

theorem editImage_mime_type_counterexample:
  "fst (editImage
     (\<lambda>_. Inr \<lparr>response_text = None,
                candidates = Some [\<lparr>content = Some \<lparr>parts = Some
                  [\<lparr>part_text = Some ''Here is the edited image'', inlineData = None\<rparr>,
                   \<lparr>part_text = None,
                    inlineData = Some \<lparr>data = Some ''iVBORw0KGgo='',
                                       mimeType = Some ''image/png''\<rparr>\<rparr>]\<rparr>\<rparr>]\<rparr>)
     ''R0lGODdh'' ''image/gif'' ''Make the sky blue'' \<lparr>sent = [], console = []\<rparr>)
     = Inr (Some ''iVBORw0KGgo='') \<and>
   fst (editImage
     (\<lambda>_. Inr \<lparr>response_text = None,
                candidates = Some [\<lparr>content = Some \<lparr>parts = Some
                  [\<lparr>part_text = Some ''Here is the edited image'', inlineData = None\<rparr>,
                   \<lparr>part_text = None,
                    inlineData = Some \<lparr>data = Some ''iVBORw0KGgo='',
                                       mimeType = Some ''image/webp''\<rparr>\<rparr>]\<rparr>\<rparr>]\<rparr>)
     ''R0lGODdh'' ''image/gif'' ''Make the sky blue'' \<lparr>sent = [], console = []\<rparr>)
     = Inr (Some ''iVBORw0KGgo='') \<and>
   firstImage_spec
     [\<lparr>part_text = Some ''Here is the edited image'', inlineData = None\<rparr>,
      \<lparr>part_text = None,
       inlineData = Some \<lparr>data = Some ''iVBORw0KGgo='', mimeType = Some ''image/png''\<rparr>\<rparr>]
     = Some (Some ''iVBORw0KGgo='', Some ''image/png'') \<and>
   firstImage_spec
     [\<lparr>part_text = Some ''Here is the edited image'', inlineData = None\<rparr>,
      \<lparr>part_text = None,
       inlineData = Some \<lparr>data = Some ''iVBORw0KGgo='', mimeType = Some ''image/webp''\<rparr>\<rparr>]
     = Some (Some ''iVBORw0KGgo='', Some ''image/webp'')"
  by (simp add: editImage_def generateContent_def editImage_extract_def response_parts_def)

text \<open>
  Claim C3, amended. When the parts of the response hold an inline-binary part, the
  image edit returns the \<open>data\<close> field of the first one as it is, whatever parts without
  inline data come before it and whatever follows: the payload when the part has one,
  nothing when it has none. The mime type is not part of the result. The result is
  the first component of what the contract of the specification describes.
\<close>

theorem editImage_first_inline_payload:
  "ep (editImageRequest imageBase64 mimeType' prompt) = Inr response \<Longrightarrow>
   response_parts response = Inr (pre @ p # post) \<Longrightarrow>
   \<forall>q\<in>set pre. inlineData q = None \<Longrightarrow>
   inlineData p = Some b \<Longrightarrow>
   fst (editImage ep imageBase64 mimeType' prompt w) = Inr (data b) \<and>
   firstImage (pre @ p # post) =
     (case firstImage_spec (pre @ p # post) of None \<Rightarrow> None | Some (d, m) \<Rightarrow> d)"
proof -
  assume r: "ep (editImageRequest imageBase64 mimeType' prompt) = Inr response"
    and ps: "response_parts response = Inr (pre @ p # post)"
    and pre: "\<forall>q\<in>set pre. inlineData q = None"
    and b: "inlineData p = Some b"
  have "firstImage (pre @ p # post) = firstImage (p # post)"
    using pre by (rule firstImage_skip)
  also have "\<dots> = data b" using b by simp
  finally have "editImage_extract response = Inr (data b)"
    using ps by (simp add: editImage_extract_def)
  then show ?thesis
    using r firstImage_refines_spec [of "pre @ p # post"] by (simp add: editImage_result)
qed

theorem editImage_first_inline_payload_witness:
  "fst (editImage
     (\<lambda>_. Inr \<lparr>response_text = None,
                candidates = Some [\<lparr>content = Some \<lparr>parts = Some
                  ([\<lparr>part_text = Some ''Here is the edited image'', inlineData = None\<rparr>] @
                   \<lparr>part_text = None,
                    inlineData = Some \<lparr>data = Some ''iVBORw0KGgo='',
                                       mimeType = Some ''image/png''\<rparr>\<rparr> #
                   [\<lparr>part_text = None,
                     inlineData = Some \<lparr>data = Some ''/9j/4AAQ'',
                                        mimeType = Some ''image/jpeg''\<rparr>\<rparr>])\<rparr>\<rparr>]\<rparr>)
     ''R0lGODdh'' ''image/gif'' ''Make the sky blue'' \<lparr>sent = [], console = []\<rparr>)
     = Inr (Some ''iVBORw0KGgo='') \<and>
   fst (editImage
     (\<lambda>_. Inr \<lparr>response_text = None,
                candidates = Some [\<lparr>content = Some \<lparr>parts = Some
                  ([\<lparr>part_text = Some ''Here is the edited image'', inlineData = None\<rparr>] @
                   \<lparr>part_text = None,
                    inlineData = Some \<lparr>data = None, mimeType = Some ''image/png''\<rparr>\<rparr> #
                   [\<lparr>part_text = None,
                     inlineData = Some \<lparr>data = Some ''/9j/4AAQ'',
                                        mimeType = Some ''image/jpeg''\<rparr>\<rparr>])\<rparr>\<rparr>]\<rparr>)
     ''R0lGODdh'' ''image/gif'' ''Make the sky blue'' \<lparr>sent = [], console = []\<rparr>)
     = Inr None"
proof -
  let ?t = "\<lparr>part_text = Some ''Here is the edited image'', inlineData = None\<rparr>"
  let ?b = "\<lparr>data = Some ''iVBORw0KGgo='', mimeType = Some ''image/png''\<rparr>"
  let ?b' = "\<lparr>data = None, mimeType = Some ''image/png''\<rparr>"
  let ?p = "\<lparr>part_text = None, inlineData = Some ?b\<rparr>"
  let ?p' = "\<lparr>part_text = None, inlineData = Some ?b'\<rparr>"
  let ?post = "[\<lparr>part_text = None,
                 inlineData = Some \<lparr>data = Some ''/9j/4AAQ'', mimeType = Some ''image/jpeg''\<rparr>\<rparr>]"
  let ?response = "\<lparr>response_text = None,
       candidates = Some [\<lparr>content = Some \<lparr>parts = Some ([?t] @ ?p # ?post)\<rparr>\<rparr>]\<rparr>"
  let ?response' = "\<lparr>response_text = None,
       candidates = Some [\<lparr>content = Some \<lparr>parts = Some ([?t] @ ?p' # ?post)\<rparr>\<rparr>]\<rparr>"
  let ?ep = "\<lambda>_::request. Inr ?response :: exn + response"
  let ?ep' = "\<lambda>_::request. Inr ?response' :: exn + response"
  let ?w = "\<lparr>sent = [], console = []\<rparr>"
  let ?req = "editImageRequest ''R0lGODdh'' ''image/gif'' ''Make the sky blue''"
  have r: "?ep ?req = Inr ?response" by simp
  have r': "?ep' ?req = Inr ?response'" by simp
  have ps: "response_parts ?response = Inr ([?t] @ ?p # ?post)"
    by (simp add: response_parts_def)
  have ps': "response_parts ?response' = Inr ([?t] @ ?p' # ?post)"
    by (simp add: response_parts_def)
  have pre: "\<forall>q\<in>set [?t]. inlineData q = None" by simp
  have b: "inlineData ?p = Some ?b" by simp
  have b': "inlineData ?p' = Some ?b'" by simp
  show ?thesis
    using editImage_first_inline_payload [where ep = ?ep and w = ?w, OF r ps pre b]
      editImage_first_inline_payload [where ep = ?ep' and w = ?w, OF r' ps' pre b']
    by simp
qed

text \<open>
  Claim C4. When the parts of the response hold no inline-binary part, the image edit
  returns \<open>null\<close>: the result is a value, not an exception.
\<close>

theorem editImage_no_inline_null:
  "ep (editImageRequest imageBase64 mimeType' prompt) = Inr response \<Longrightarrow>
   response_parts response = Inr ps \<Longrightarrow>
   \<forall>p\<in>set ps. inlineData p = None \<Longrightarrow>
   fst (editImage ep imageBase64 mimeType' prompt w) = Inr None"
proof -
  assume r: "ep (editImageRequest imageBase64 mimeType' prompt) = Inr response"
    and ps: "response_parts response = Inr ps"
    and no: "\<forall>p\<in>set ps. inlineData p = None"
  have "firstImage (ps @ []) = firstImage []" using no by (rule firstImage_skip)
  then have "editImage_extract response = Inr None"
    using ps by (simp add: editImage_extract_def)
  then show ?thesis using r by (simp add: editImage_result)
qed

theorem editImage_no_inline_null_witness:
  "fst (editImage
     (\<lambda>_. Inr \<lparr>response_text = Some ''I cannot edit this image.'',
                candidates = Some [\<lparr>content = Some \<lparr>parts = Some
                  [\<lparr>part_text = Some ''I cannot edit this image.'', inlineData = None\<rparr>]\<rparr>\<rparr>]\<rparr>)
     ''R0lGODdh'' ''image/gif'' ''Make the sky blue'' \<lparr>sent = [], console = []\<rparr>)
     = Inr None \<and>
   fst (editImage
     (\<lambda>_. Inr \<lparr>response_text = None,
                candidates = Some [\<lparr>content = Some \<lparr>parts = Some []\<rparr>\<rparr>]\<rparr>)
     ''R0lGODdh'' ''image/gif'' ''Make the sky blue'' \<lparr>sent = [], console = []\<rparr>)
     = Inr None"
proof -
  let ?t = "\<lparr>part_text = Some ''I cannot edit this image.'', inlineData = None\<rparr>"
  let ?r1 = "\<lparr>response_text = Some ''I cannot edit this image.'',
       candidates = Some [\<lparr>content = Some \<lparr>parts = Some [?t]\<rparr>\<rparr>]\<rparr>"
  let ?r2 = "\<lparr>response_text = None,
       candidates = Some [\<lparr>content = Some \<lparr>parts = Some ([] :: part list)\<rparr>\<rparr>]\<rparr>"
  let ?req = "editImageRequest ''R0lGODdh'' ''image/gif'' ''Make the sky blue''"
  let ?w = "\<lparr>sent = [], console = []\<rparr>"
  let ?ep1 = "\<lambda>_::request. Inr ?r1 :: exn + response"
  let ?ep2 = "\<lambda>_::request. Inr ?r2 :: exn + response"
  have r1: "?ep1 ?req = Inr ?r1" by simp
  have r2: "?ep2 ?req = Inr ?r2" by simp
  have p1: "response_parts ?r1 = Inr [?t]" by (simp add: response_parts_def)
  have p2: "response_parts ?r2 = Inr []" by (simp add: response_parts_def)
  have n1: "\<forall>p\<in>set [?t]. inlineData p = None" by simp
  have n2: "\<forall>p\<in>set ([] :: part list). inlineData p = None" by simp
  show ?thesis
    using editImage_no_inline_null [where ep = ?ep1 and w = ?w, OF r1 p1 n1]
      editImage_no_inline_null [where ep = ?ep2 and w = ?w, OF r2 p2 n2]
    by simp
qed

text \<open>
  Claim C9. The image edit reads \<open>response.candidates[0].content.parts\<close> without a guard.
  The extraction returns a value (the payload or \<open>null\<close>) exactly when the response has a
  first candidate with a content that has a list of parts. In every other case, with no
  candidates, an empty list of candidates, a first candidate without content or a
  content without parts, the read raises a \<open>TypeError\<close>, which the image edit passes to
  its caller in place of \<open>null\<close>.
\<close>

theorem editImage_extract_unguarded:
  "ep (editImageRequest imageBase64 mimeType' prompt) = Inr response \<Longrightarrow>
   fst (editImage ep imageBase64 mimeType' prompt w) = editImage_extract response \<and>
   ((\<exists>r. editImage_extract response = Inr r) =
      (\<exists>c cs ct ps. candidates response = Some (c # cs) \<and> content c = Some ct \<and>
         parts ct = Some ps)) \<and>
   ((editImage_extract response = Inl TypeError) =
      (candidates response = None \<or> candidates response = Some [] \<or>
       (\<exists>c cs. candidates response = Some (c # cs) \<and>
          (content c = None \<or> (\<exists>ct. content c = Some ct \<and> parts ct = None))))) \<and>
   (editImage_extract response = Inl TypeError \<or> (\<exists>r. editImage_extract response = Inr r))"
proof -
  assume r: "ep (editImageRequest imageBase64 mimeType' prompt) = Inr response"
  have a: "(\<exists>r. editImage_extract response = Inr r) =
      (\<exists>c cs ct ps. candidates response = Some (c # cs) \<and> content c = Some ct \<and>
         parts ct = Some ps)"
    by (auto simp: editImage_extract_def response_parts_def
        split: option.splits list.splits sum.splits)
  have b: "(editImage_extract response = Inl TypeError) =
      (candidates response = None \<or> candidates response = Some [] \<or>
       (\<exists>c cs. candidates response = Some (c # cs) \<and>
          (content c = None \<or> (\<exists>ct. content c = Some ct \<and> parts ct = None))))"
    by (auto simp: editImage_extract_def response_parts_def
        split: option.splits list.splits sum.splits)
  have c: "editImage_extract response = Inl TypeError \<or> (\<exists>r. editImage_extract response = Inr r)"
    by (auto simp: editImage_extract_def response_parts_def
        split: option.splits list.splits sum.splits)
  have d: "fst (editImage ep imageBase64 mimeType' prompt w) = editImage_extract response"
    using r by (rule editImage_result)
  show ?thesis using a b c d by blast
qed

theorem editImage_extract_unguarded_witness:
  "fst (editImage (\<lambda>_. Inr \<lparr>response_text = None, candidates = Some []\<rparr>)
     ''R0lGODdh'' ''image/gif'' ''Make the sky blue'' \<lparr>sent = [], console = []\<rparr>)
     = Inl TypeError \<and>
   fst (editImage (\<lambda>_. Inr \<lparr>response_text = None, candidates = None\<rparr>)
     ''R0lGODdh'' ''image/gif'' ''Make the sky blue'' \<lparr>sent = [], console = []\<rparr>)
     = Inl TypeError \<and>
   fst (editImage
     (\<lambda>_. Inr \<lparr>response_text = None, candidates = Some [\<lparr>content = None\<rparr>]\<rparr>)
     ''R0lGODdh'' ''image/gif'' ''Make the sky blue'' \<lparr>sent = [], console = []\<rparr>)
     = Inl TypeError \<and>
   fst (editImage
     (\<lambda>_. Inr \<lparr>response_text = None,
                candidates = Some [\<lparr>content = Some \<lparr>parts = None\<rparr>\<rparr>]\<rparr>)
     ''R0lGODdh'' ''image/gif'' ''Make the sky blue'' \<lparr>sent = [], console = []\<rparr>)
     = Inl TypeError"
proof -
  let ?req = "editImageRequest ''R0lGODdh'' ''image/gif'' ''Make the sky blue''"
  let ?w = "\<lparr>sent = [], console = []\<rparr>"
  let ?r1 = "\<lparr>response_text = None, candidates = Some []\<rparr>"
  let ?r2 = "\<lparr>response_text = None, candidates = None\<rparr>"
  let ?r3 = "\<lparr>response_text = None, candidates = Some [\<lparr>content = None\<rparr>]\<rparr>"
  let ?r4 = "\<lparr>response_text = None, candidates = Some [\<lparr>content = Some \<lparr>parts = None\<rparr>\<rparr>]\<rparr>"
  let ?ep1 = "\<lambda>_::request. Inr ?r1 :: exn + response"
  let ?ep2 = "\<lambda>_::request. Inr ?r2 :: exn + response"
  let ?ep3 = "\<lambda>_::request. Inr ?r3 :: exn + response"
  let ?ep4 = "\<lambda>_::request. Inr ?r4 :: exn + response"
  have e1: "?ep1 ?req = Inr ?r1" by simp
  have e2: "?ep2 ?req = Inr ?r2" by simp
  have e3: "?ep3 ?req = Inr ?r3" by simp
  have e4: "?ep4 ?req = Inr ?r4" by simp
  show ?thesis
    using editImage_extract_unguarded [where ep = ?ep1 and w = ?w, OF e1]
      editImage_extract_unguarded [where ep = ?ep2 and w = ?w, OF e2]
      editImage_extract_unguarded [where ep = ?ep3 and w = ?w, OF e3]
      editImage_extract_unguarded [where ep = ?ep4 and w = ?w, OF e4]
    by simp
qed

subsection \<open>The generation call sites\<close>

text \<open>Each of the six call sites has the same body, with its own request.\<close>

lemma generation_calls_unfold:
  "(call, req) \<in> set (generation_calls build chatTitle) \<Longrightarrow>
   call ep w =
     (case ep req of
        Inl e \<Rightarrow> (Inl e, w\<lparr>sent := sent w @ [GenerateContent req]\<rparr>)
      | Inr response \<Rightarrow>
          (case safeJsonParse_try build (response_text response) of
             Inl e \<Rightarrow>
               (Inr None,
                w\<lparr>sent := sent w @ [GenerateContent req],
                  console := console w @ [\<lparr>error = e, original = response_text response\<rparr>]\<rparr>)
           | Inr v \<Rightarrow> (Inr v, w\<lparr>sent := sent w @ [GenerateContent req]\<rparr>)))"
  by (auto simp: generation_calls_def generateUserProfile_def generateChatList_def
      generateChatHistory_def generateCanvasList_def generateVaultNodes_def
      generateZohoIntegrations_def generateContent_def safeJsonParse_def
      split: sum.splits)

lemma generateUserProfile_call:
  "(generateUserProfile build, userProfileRequest) \<in> set (generation_calls build chatTitle)"
  by (simp add: generation_calls_def)

text \<open>
  Claim C5, as the specification states it, has the typed value and the \<open>null\<close> of a
  decode failure as exclusive outcomes. By the returned value they are not: a response
  whose text is the JSON literal \<open>null\<close> decodes, and the call returns \<open>null\<close>, the value it
  also returns for a text that does not decode. Here \<open>build\<close> gives \<open>null\<close> for the text
  \<open>null\<close> and the text itself for any other.
\<close>

theorem generateUserProfile_null_literal_counterexample:
  "safeJsonParse_try (\<lambda>t. if t = ''null'' then None else Some t) (Some ''null'') = Inr None \<and>
   fst (generateUserProfile (\<lambda>t. if t = ''null'' then None else Some t)
          (\<lambda>_. Inr \<lparr>response_text = Some ''null'', candidates = None\<rparr>)
          \<lparr>sent = [], console = []\<rparr>) = Inr None \<and>
   safeJsonParse_try (\<lambda>t. if t = ''null'' then None else Some t) (Some ''oops'')
     = Inl SyntaxError \<and>
   fst (generateUserProfile (\<lambda>t. if t = ''null'' then None else Some t)
          (\<lambda>_. Inr \<lparr>response_text = Some ''oops'', candidates = None\<rparr>)
          \<lparr>sent = [], console = []\<rparr>) = Inr None"
proof -
  let ?build = "\<lambda>t::string. if t = ''null'' then None else Some t"
  have n: "safeJsonParse_try ?build (Some ''null'') = Inr None" by code_simp
  have o: "safeJsonParse_try ?build (Some ''oops'') = Inl SyntaxError" by code_simp
  show ?thesis
    using n o by (simp add: generateUserProfile_def generateContent_def safeJsonParse_def)
qed

text \<open>
  Claim C5, amended. For each of the six generation calls, a failure of the transport
  is not caught: the call ends with that very exception and writes nothing to the
  console. When the transport succeeds the call returns a value: \<open>null\<close> with one
  diagnostic line on the console when the try block of the decoder raises, the decoded
  value with no line otherwise. So the call is rejected exactly when the transport
  failed, and the console grows exactly when decoding failed: the three outcomes
  exclude one another, the decode failure being told from a decoded value by the
  diagnostic and not by the returned value, which is \<open>null\<close> in both cases when the text
  decodes to \<open>null\<close>.
\<close>

theorem generation_transport_failure_propagates:
  "(call, req) \<in> set (generation_calls build chatTitle) \<Longrightarrow>
   (ep req = Inl e \<longrightarrow>
      fst (call ep w) = Inl e \<and> console (snd (call ep w)) = console w) \<and>
   (ep req = Inr response \<longrightarrow> safeJsonParse_try build (response_text response) = Inl e'
      \<longrightarrow> fst (call ep w) = Inr None \<and>
          console (snd (call ep w)) =
            console w @ [\<lparr>error = e', original = response_text response\<rparr>]) \<and>
   (ep req = Inr response \<longrightarrow> safeJsonParse_try build (response_text response) = Inr v
      \<longrightarrow> fst (call ep w) = Inr v \<and> console (snd (call ep w)) = console w) \<and>
   ((\<exists>x. fst (call ep w) = Inl x) = (\<exists>x. ep req = Inl x)) \<and>
   ((console (snd (call ep w)) \<noteq> console w) =
      (\<exists>r x. ep req = Inr r \<and> safeJsonParse_try build (response_text r) = Inl x))"
proof -
  assume m: "(call, req) \<in> set (generation_calls build chatTitle)"
  show ?thesis
    unfolding generation_calls_unfold [OF m]
    by (auto split: sum.splits)
qed

theorem generation_transport_failure_propagates_witness:
  "generateUserProfile (\<lambda>t. Some t) (\<lambda>_. Inl (TransportError ''503''))
          \<lparr>sent = [], console = []\<rparr> =
     (Inl (TransportError ''503''),
      \<lparr>sent = [GenerateContent userProfileRequest], console = []\<rparr>) \<and>
   generateUserProfile (\<lambda>t. Some t)
          (\<lambda>_. Inr \<lparr>response_text = Some ''Sure! Here's your JSON: {\"a\":1}'',
                     candidates = None\<rparr>)
          \<lparr>sent = [], console = []\<rparr> =
     (Inr None,
      \<lparr>sent = [GenerateContent userProfileRequest],
       console = [\<lparr>error = SyntaxError,
                   original = Some ''Sure! Here's your JSON: {\"a\":1}''\<rparr>]\<rparr>) \<and>
   generateUserProfile (\<lambda>t. Some t)
          (\<lambda>_. Inr \<lparr>response_text = Some ''```json\<newline>{\"a\":1}\<newline>```'',
                     candidates = None\<rparr>)
          \<lparr>sent = [], console = []\<rparr> =
     (Inr (Some ''{\"a\":1}''),
      \<lparr>sent = [GenerateContent userProfileRequest], console = []\<rparr>)"
proof -
  let ?build = "\<lambda>t::string. Some t"
  let ?w = "\<lparr>sent = [], console = []\<rparr>"
  let ?bad = "\<lparr>response_text = Some ''Sure! Here's your JSON: {\"a\":1}'', candidates = None\<rparr>"
  let ?good = "\<lparr>response_text = Some ''```json\<newline>{\"a\":1}\<newline>```'', candidates = None\<rparr>"
  let ?ep1 = "\<lambda>_::request. Inl (TransportError ''503'') :: exn + response"
  let ?ep2 = "\<lambda>_::request. Inr ?bad :: exn + response"
  let ?ep3 = "\<lambda>_::request. Inr ?good :: exn + response"
  have m: "(generateUserProfile ?build, userProfileRequest) \<in> set (generation_calls ?build '''')"
    by (rule generateUserProfile_call)
  have d2: "safeJsonParse_try ?build (Some ''Sure! Here's your JSON: {\"a\":1}'') = Inl SyntaxError"
    by code_simp
  have d3: "safeJsonParse_try ?build (Some ''```json\<newline>{\"a\":1}\<newline>```'')
      = Inr (Some ''{\"a\":1}'')"
    by code_simp
  have s: "sent (snd (generateUserProfile ?build ep ?w)) = [GenerateContent userProfileRequest]"
    for ep
    by (simp add: generateUserProfile_def generateContent_def safeJsonParse_def
        split: sum.splits)
  have eq: "x = (a, \<lparr>sent = b, console = c\<rparr>)"
    if "fst x = a" "sent (snd x) = b" "console (snd x) = c"
    for x :: "(exn + string option) \<times> world" and a b c
    using that by (cases x) auto
  have 1: "generateUserProfile ?build ?ep1 ?w =
      (Inl (TransportError ''503''), \<lparr>sent = [GenerateContent userProfileRequest], console = []\<rparr>)"
    using generation_transport_failure_propagates
        [where ep = ?ep1 and w = ?w and e = "TransportError ''503''", OF m] s [of ?ep1]
    by (intro eq) simp_all
  have 2: "generateUserProfile ?build ?ep2 ?w =
      (Inr None, \<lparr>sent = [GenerateContent userProfileRequest],
         console = [\<lparr>error = SyntaxError,
                     original = Some ''Sure! Here's your JSON: {\"a\":1}''\<rparr>]\<rparr>)"
    using d2 generation_transport_failure_propagates
        [where ep = ?ep2 and w = ?w and response = ?bad and e' = SyntaxError, OF m] s [of ?ep2]
    by (intro eq) simp_all
  have 3: "generateUserProfile ?build ?ep3 ?w =
      (Inr (Some ''{\"a\":1}''), \<lparr>sent = [GenerateContent userProfileRequest], console = []\<rparr>)"
    using d3 generation_transport_failure_propagates
        [where ep = ?ep3 and w = ?w and response = ?good and v = "Some ''{\"a\":1}''", OF m]
      s [of ?ep3]
    by (intro eq) simp_all
  show ?thesis using 1 2 3 by simp
qed

text \<open>
  Claim C8, as the specification states it, allows no effect beyond the one outbound
  call. A generation call whose response does not decode also writes a line to the
  console.
\<close>

theorem generateUserProfile_console_counterexample:
  "snd (generateUserProfile (\<lambda>t. Some t)
          (\<lambda>_. Inr \<lparr>response_text = Some ''Sure! Here's your JSON: {\"a\":1}'',
                     candidates = None\<rparr>)
          \<lparr>sent = [], console = []\<rparr>) =
     \<lparr>sent = [GenerateContent userProfileRequest],
      console = [\<lparr>error = SyntaxError,
                  original = Some ''Sure! Here's your JSON: {\"a\":1}''\<rparr>]\<rparr>"
proof -
  have d: "safeJsonParse_try (\<lambda>t::string. Some t) (Some ''Sure! Here's your JSON: {\"a\":1}'')
      = Inl SyntaxError"
    by code_simp
  show ?thesis
    by (simp add: generateUserProfile_def generateContent_def safeJsonParse_def d)
qed

text \<open>
  Claim C8, amended. Every call of one of the six generation functions, of the image
  edit, of the image description and of the log extraction sends exactly one request,
  whatever the outcome: the list of requests sent grows by that one request. The only
  other effect is the line that the decoder writes to the console when its try block
  raises; the image edit, the image description and the log extraction write nothing.
\<close>

theorem generation_single_request:
  "(call, req) \<in> set (generation_calls build chatTitle) \<Longrightarrow>
   sent (snd (call ep w)) = sent w @ [GenerateContent req] \<and>
   console (snd (call ep w)) =
     console w @
       (case ep req of
          Inl e \<Rightarrow> []
        | Inr response \<Rightarrow>
            (case safeJsonParse_try build (response_text response) of
               Inl e \<Rightarrow> [\<lparr>error = e, original = response_text response\<rparr>]
             | Inr v \<Rightarrow> [])) \<and>
   snd (editImage ep imageBase64 mimeType' prompt w) =
     w\<lparr>sent := sent w @ [GenerateContent (editImageRequest imageBase64 mimeType' prompt)]\<rparr> \<and>
   snd (analyzeImage ep imageBase64 mimeType' w) =
     w\<lparr>sent := sent w @ [GenerateContent (analyzeImageRequest imageBase64 mimeType')]\<rparr> \<and>
   snd (processTakeoutData ep takeoutData w) =
     w\<lparr>sent := sent w @ [GenerateContent (takeoutRequest takeoutData)]\<rparr>"
proof -
  assume m: "(call, req) \<in> set (generation_calls build chatTitle)"
  have a: "sent (snd (call ep w)) = sent w @ [GenerateContent req]"
    unfolding generation_calls_unfold [OF m] by (simp split: sum.splits)
  have b: "console (snd (call ep w)) =
     console w @
       (case ep req of
          Inl e \<Rightarrow> []
        | Inr response \<Rightarrow>
            (case safeJsonParse_try build (response_text response) of
               Inl e \<Rightarrow> [\<lparr>error = e, original = response_text response\<rparr>]
             | Inr v \<Rightarrow> []))"
    unfolding generation_calls_unfold [OF m] by (simp split: sum.splits)
  have c: "snd (editImage ep imageBase64 mimeType' prompt w) =
     w\<lparr>sent := sent w @ [GenerateContent (editImageRequest imageBase64 mimeType' prompt)]\<rparr>"
    by (simp add: editImage_def generateContent_def split: sum.splits)
  have d: "snd (analyzeImage ep imageBase64 mimeType' w) =
     w\<lparr>sent := sent w @ [GenerateContent (analyzeImageRequest imageBase64 mimeType')]\<rparr>"
    by (simp add: analyzeImage_def generateContent_def split: sum.splits)
  have e: "snd (processTakeoutData ep takeoutData w) =
     w\<lparr>sent := sent w @ [GenerateContent (takeoutRequest takeoutData)]\<rparr>"
    by (simp add: processTakeoutData_def generateContent_def split: sum.splits)
  show ?thesis using a b c d e by simp
qed

theorem generation_single_request_witness:
  "sent (snd (generateUserProfile (\<lambda>t. Some t) (\<lambda>_. Inl (TransportError ''timeout''))
          \<lparr>sent = [SendMessage ''hello''], console = []\<rparr>)) =
     [SendMessage ''hello'', GenerateContent userProfileRequest] \<and>
   console (snd (generateUserProfile (\<lambda>t. Some t) (\<lambda>_. Inl (TransportError ''timeout''))
          \<lparr>sent = [SendMessage ''hello''], console = []\<rparr>)) = []"
proof -
  let ?build = "\<lambda>t::string. Some t"
  let ?ep = "\<lambda>_::request. Inl (TransportError ''timeout'') :: exn + response"
  let ?w = "\<lparr>sent = [SendMessage ''hello''], console = []\<rparr>"
  have m: "(generateUserProfile ?build, userProfileRequest) \<in> set (generation_calls ?build '''')"
    by (rule generateUserProfile_call)
  show ?thesis
    using generation_single_request [where ep = ?ep and w = ?w, OF m]
    by simp
qed

subsection \<open>Log extraction\<close>

text \<open>
  Claim C6, as the specification states it, has the log extraction declare a shape and
  decode the returned text. The source sends no response schema and returns the text
  as it came: a text that the decoder would turn into \<open>null\<close> is returned unchanged.
\<close>

theorem processTakeoutData_decoder_counterexample:
  "fst (processTakeoutData
          (\<lambda>_. Inr \<lparr>response_text = Some ''Sure! Here's your JSON: {\"a\":1}'',
                     candidates = None\<rparr>)
          ''<html></html>'' \<lparr>sent = [], console = []\<rparr>) =
     Inr (Some ''Sure! Here's your JSON: {\"a\":1}'') \<and>
   fst (safeJsonParse (\<lambda>t. Some t) (Some ''Sure! Here's your JSON: {\"a\":1}'')
          \<lparr>sent = [], console = []\<rparr>) = None \<and>
   map_option responseSchema (config (takeoutRequest ''<html></html>'')) = Some None"
proof -
  have d: "safeJsonParse_try (\<lambda>t::string. Some t) (Some ''Sure! Here's your JSON: {\"a\":1}'')
      = Inl SyntaxError"
    by code_simp
  show ?thesis
    by (simp add: processTakeoutData_def generateContent_def safeJsonParse_def d
        takeoutRequest_def)
qed

text \<open>
  Claim C6, amended. The log extraction sends one request whose instruction is the
  fixed template around the caller's data, asking for the mime type
  \<open>application/json\<close> with no response schema. It returns the text of the response
  unchanged, without decoding it, and writes nothing to the console; a failure of the
  transport is passed on.
\<close>

theorem processTakeoutData_raw_text:
  "fst (processTakeoutData ep takeoutData w) =
     (case ep (takeoutRequest takeoutData) of
        Inl e \<Rightarrow> Inl e
      | Inr response \<Rightarrow> Inr (response_text response)) \<and>
   snd (processTakeoutData ep takeoutData w) =
     w\<lparr>sent := sent w @ [GenerateContent (takeoutRequest takeoutData)]\<rparr> \<and>
   contents (takeoutRequest takeoutData) = Prompt (takeoutPrompt takeoutData) \<and>
   config (takeoutRequest takeoutData) =
     Some \<lparr>responseMimeType = Some ''application/json'',
           responseSchema = None,
           responseModalities = None\<rparr>"
  by (simp add: processTakeoutData_def generateContent_def takeoutRequest_def
      split: sum.splits)

subsection \<open>Chat relay\<close>

text \<open>
  Claim C7, as the specification states it, turns an empty reply into \<open>null\<close>. The source
  returns \<open>response.text\<close> as it is: the empty string stays the empty string.
\<close>

theorem sendChatFulfillment_empty_reply_counterexample:
  "fst (sendChatFulfillment (\<lambda>_. Inr \<lparr>response_text = Some '''', candidates = None\<rparr>)
          ''hello'' \<lparr>sent = [SendMessage ''hi''], console = []\<rparr>) = Inr (Some '''') \<and>
   fst (sendChatFulfillment (\<lambda>_. Inr \<lparr>response_text = Some '''', candidates = None\<rparr>)
          ''hello'' \<lparr>sent = [SendMessage ''hi''], console = []\<rparr>) \<noteq> Inr None"
  by (simp add: sendChatFulfillment_def sendMessage_def)

text \<open>
  Claim C7, amended. A chat-relay send whose call succeeds returns the text of the
  reply unchanged, the empty string included; the result is absent only when the
  reply carries no text. The message goes out once.
\<close>

theorem sendChatFulfillment_text_unchanged:
  "chat message = Inr response \<Longrightarrow>
   fst (sendChatFulfillment chat message w) = Inr (response_text response) \<and>
   snd (sendChatFulfillment chat message w) = w\<lparr>sent := sent w @ [SendMessage message]\<rparr>"
  by (simp add: sendChatFulfillment_def sendMessage_def)

theorem sendChatFulfillment_text_unchanged_witness:
  "fst (sendChatFulfillment
          (\<lambda>m. Inr \<lparr>response_text = Some (''You said: '' @ m), candidates = None\<rparr>)
          ''hello'' \<lparr>sent = [SendMessage ''hi''], console = []\<rparr>) =
     Inr (Some ''You said: hello'') \<and>
   fst (sendChatFulfillment (\<lambda>m. Inr \<lparr>response_text = None, candidates = None\<rparr>)
          ''hello'' \<lparr>sent = [SendMessage ''hi''], console = []\<rparr>) = Inr None"
proof -
  let ?w = "\<lparr>sent = [SendMessage ''hi''], console = []\<rparr>"
  let ?c1 = "\<lambda>m::string. Inr \<lparr>response_text = Some (''You said: '' @ m), candidates = None\<rparr>
     :: exn + response"
  let ?c2 = "\<lambda>m::string. Inr \<lparr>response_text = None, candidates = None\<rparr> :: exn + response"
  have r1: "?c1 ''hello'' = Inr \<lparr>response_text = Some ''You said: hello'', candidates = None\<rparr>"
    by simp
  have r2: "?c2 ''hello'' = Inr \<lparr>response_text = None, candidates = None\<rparr>"
    by simp
  show ?thesis
    using sendChatFulfillment_text_unchanged [where chat = ?c1 and w = ?w, OF r1]
      sendChatFulfillment_text_unchanged [where chat = ?c2 and w = ?w, OF r2]
    by simp
qed

subsection \<open>Prompt templates\<close>

lemma splice_here: "\<exists>pre post. \<forall>t::string. t @ rest = pre @ t @ post"
  by (rule exI [of _ "[]"]) simp

lemma splice_later:
  "\<exists>pre post. \<forall>t::string. g t = pre @ t @ post \<Longrightarrow>
   \<exists>pre post. \<forall>t. c @ g t = pre @ t @ post"
proof -
  assume "\<exists>pre post. \<forall>t. g t = pre @ t @ post"
  then obtain pre post where "\<forall>t. g t = pre @ t @ post" by blast
  then have "\<forall>t. c @ g t = (c @ pre) @ t @ post" by simp
  then show ?thesis by blast
qed

lemma chatHistoryPrompt_splice: "\<exists>pre post. \<forall>t. chatHistoryPrompt t = pre @ t @ post"
  unfolding chatHistoryPrompt_def by (intro splice_later splice_here)

lemma takeoutPrompt_splice: "\<exists>pre post. \<forall>t. takeoutPrompt t = pre @ t @ post"
  unfolding takeoutPrompt_def by (intro splice_later splice_here)

text \<open>
  Claim C10. The instruction that the chat-history call and the log extraction send is
  a fixed text before the caller's string, the caller's string character for character,
  and a fixed text after it: nothing of the argument is escaped, removed or replaced.
  The request that goes out carries this instruction.
\<close>

theorem prompts_splice_verbatim:
  "\<exists>pre post pre' post'. \<forall>chatTitle takeoutData ep w.
     sent (snd (generateChatHistory build ep chatTitle w)) =
       sent w @ [GenerateContent (chatHistoryRequest chatTitle)] \<and>
     contents (chatHistoryRequest chatTitle) = Prompt (pre @ chatTitle @ post) \<and>
     sent (snd (processTakeoutData ep takeoutData w)) =
       sent w @ [GenerateContent (takeoutRequest takeoutData)] \<and>
     contents (takeoutRequest takeoutData) = Prompt (pre' @ takeoutData @ post')"
proof -
  obtain pre post where a: "\<forall>t. chatHistoryPrompt t = pre @ t @ post"
    using chatHistoryPrompt_splice by blast
  obtain pre' post' where b: "\<forall>t. takeoutPrompt t = pre' @ t @ post'"
    using takeoutPrompt_splice by blast
  have c: "sent (snd (generateChatHistory build ep chatTitle w)) =
       sent w @ [GenerateContent (chatHistoryRequest chatTitle)]" for ep chatTitle w
    by (simp add: generateChatHistory_def generateContent_def safeJsonParse_def
        split: sum.splits)
  have d: "sent (snd (processTakeoutData ep takeoutData w)) =
       sent w @ [GenerateContent (takeoutRequest takeoutData)]" for ep takeoutData w
    by (simp add: processTakeoutData_def generateContent_def split: sum.splits)
  have "\<forall>chatTitle takeoutData ep w.
     sent (snd (generateChatHistory build ep chatTitle w)) =
       sent w @ [GenerateContent (chatHistoryRequest chatTitle)] \<and>
     contents (chatHistoryRequest chatTitle) = Prompt (pre @ chatTitle @ post) \<and>
     sent (snd (processTakeoutData ep takeoutData w)) =
       sent w @ [GenerateContent (takeoutRequest takeoutData)] \<and>
     contents (takeoutRequest takeoutData) = Prompt (pre' @ takeoutData @ post')"
    using a b c d by (simp add: chatHistoryRequest_def takeoutRequest_def)
  then show ?thesis by blast
qed

end
